theory Spec2Isabelle
  imports Complex_Main "HOL-Library.Monad_Syntax"
begin

section \<open>Tensors\<close>

text \<open>
  The test file works on torch tensors of rank one and two.  A tensor is its shape together
  with its row-major storage.  Element values are real numbers: the arithmetic of the
  reference is taken as exact, the rounding of half precision is not part of the model.
  A Python exception is the result \<open>None\<close>.
\<close>

datatype dims = D1 nat | D2 nat nat

record tensor =
  shape :: dims
  data :: "real list"

definition numel :: "tensor \<Rightarrow> nat" where
  "numel t = (case shape t of D1 l \<Rightarrow> l | D2 r c \<Rightarrow> r * c)"

definition well_formed :: "tensor \<Rightarrow> bool" where
  "well_formed t = (length (data t) = numel t)"

text \<open>\<open>torch.Tensor()\<close>: the empty tensor, of shape \<open>(0,)\<close>.\<close>

definition Tensor :: tensor where
  "Tensor = \<lparr>shape = D1 0, data = []\<rparr>"

text \<open>The tensor of a given shape whose element at \<open>(i, j)\<close> is \<open>f i j\<close> (row 0 for rank one).\<close>

fun mk :: "dims \<Rightarrow> (nat \<Rightarrow> nat \<Rightarrow> real) \<Rightarrow> tensor" where
  "mk (D1 l) f = \<lparr>shape = D1 l, data = map (f 0) [0..<l]\<rparr>"
| "mk (D2 r c) f = \<lparr>shape = D2 r c, data = map (\<lambda>p. f (p div c) (p mod c)) [0..<r * c]\<rparr>"

text \<open>Under broadcasting a tensor of shape \<open>(l,)\<close> counts as one of shape \<open>(1, l)\<close>.\<close>

fun bdims :: "dims \<Rightarrow> nat \<times> nat" where
  "bdims (D1 l) = (1, l)"
| "bdims (D2 r c) = (r, c)"

text \<open>The storage read behind an index that is known to be in range.\<close>

definition elt :: "tensor \<Rightarrow> nat \<Rightarrow> nat \<Rightarrow> real" where
  "elt t i j = data t ! (i * snd (bdims (shape t)) + j)"

text \<open>\<open>t[i, j]\<close> on a tensor of rank two; out of range it raises IndexError.\<close>

definition at2 :: "tensor \<Rightarrow> nat \<Rightarrow> nat \<Rightarrow> real option" where
  "at2 t i j =
     (case shape t of
        D1 l \<Rightarrow> None
      | D2 r c \<Rightarrow> if i < r \<and> j < c \<and> i * c + j < length (data t)
                  then Some (data t ! (i * c + j)) else None)"

text \<open>\<open>t[i, :]\<close> with an integer \<open>i\<close>: the row \<open>i\<close> as a tensor of rank one.  IndexError
  when \<open>i\<close> is not a row of \<open>t\<close>, or when \<open>t\<close> has one dimension only.\<close>

definition row :: "tensor \<Rightarrow> nat \<Rightarrow> tensor option" where
  "row t i =
     (case shape t of
        D1 l \<Rightarrow> None
      | D2 r c \<Rightarrow> if i < r then Some (mk (D1 c) (\<lambda>_ j. elt t i j)) else None)"

text \<open>\<open>t.shape[0]\<close>.\<close>

definition shape0 :: "tensor \<Rightarrow> nat" where
  "shape0 t = (case shape t of D1 l \<Rightarrow> l | D2 r c \<Rightarrow> r)"

text \<open>\<open>t.repeat_interleave(g, dim=0)\<close>: every row (every element, for rank one) \<open>g\<close> times
  in a row.\<close>

definition repeat_interleave :: "tensor \<Rightarrow> nat \<Rightarrow> tensor" where
  "repeat_interleave t g =
     (case shape t of
        D1 l \<Rightarrow> mk (D1 (l * g)) (\<lambda>_ j. elt t 0 (j div g))
      | D2 r c \<Rightarrow> mk (D2 (r * g) c) (\<lambda>i j. elt t (i div g) j))"

text \<open>\<open>t.repeat(m, 1)\<close>: the whole tensor \<open>m\<close> times along dimension 0.\<close>

definition repeat_rows :: "tensor \<Rightarrow> nat \<Rightarrow> tensor" where
  "repeat_rows t m =
     (case shape t of
        D1 l \<Rightarrow> mk (D2 m l) (\<lambda>i j. elt t 0 j)
      | D2 r c \<Rightarrow> mk (D2 (m * r) c) (\<lambda>i j. elt t (i mod r) j))"

definition zeros_like :: "tensor \<Rightarrow> tensor" where
  "zeros_like t = \<lparr>shape = shape t, data = map (\<lambda>_. 0) (data t)\<rparr>"

definition ones_like :: "tensor \<Rightarrow> tensor" where
  "ones_like t = \<lparr>shape = shape t, data = map (\<lambda>_. 1) (data t)\<rparr>"

text \<open>The product of a Python number and a tensor.\<close>

definition smul :: "real \<Rightarrow> tensor \<Rightarrow> tensor" where
  "smul a t = \<lparr>shape = shape t, data = map (\<lambda>x. a * x) (data t)\<rparr>"

text \<open>
  Broadcasting of one dimension: two sizes go together when they are equal or one of them
  is 1; otherwise torch raises RuntimeError.
\<close>

definition bdim :: "nat \<Rightarrow> nat \<Rightarrow> nat option" where
  "bdim x y = (if x = y then Some x else if x = 1 then Some y else if y = 1 then Some x else None)"

text \<open>An elementwise binary operation \<open>f\<close> under broadcasting (\<open>a * b\<close>, \<open>a - b\<close>,
  \<open>torch.mul(a, b)\<close>).  The result has rank one only when both operands have.\<close>

definition bcast :: "(real \<Rightarrow> real \<Rightarrow> real) \<Rightarrow> tensor \<Rightarrow> tensor \<Rightarrow> tensor option" where
  "bcast f a b =
     (case (bdims (shape a), bdims (shape b)) of
        ((ra, ca), (rb, cb)) \<Rightarrow>
          do {
            r \<leftarrow> bdim ra rb;
            c \<leftarrow> bdim ca cb;
            Some (mk (case (shape a, shape b) of (D1 _, D1 _) \<Rightarrow> D1 c | _ \<Rightarrow> D2 r c)
                    (\<lambda>i j. f (elt a (if ra = 1 then 0 else i) (if ca = 1 then 0 else j))
                             (elt b (if rb = 1 then 0 else i) (if cb = 1 then 0 else j))))
          })"

text \<open>The in-place forms (\<open>a *= b\<close>, \<open>a += b\<close>): the result must have the shape of \<open>a\<close>.\<close>

definition ibcast :: "(real \<Rightarrow> real \<Rightarrow> real) \<Rightarrow> tensor \<Rightarrow> tensor \<Rightarrow> tensor option" where
  "ibcast f a b =
     do {
       t \<leftarrow> bcast f a b;
       if shape t = shape a then Some t else None
     }"

text \<open>
  Modelled from the spec: the dense product of two matrices, \<open>torch.matmul\<close>.  The test
  calls it only inside \<open>_utils.woq_groupwise_gt_matmul\<close>, which is not among the sources;
  the reference matmul of the spec has the standard dense semantics.  The inner dimensions
  must agree (RuntimeError).  An operand of rank one does not occur and gives \<open>None\<close>.
\<close>

definition matmul :: "tensor \<Rightarrow> tensor \<Rightarrow> tensor option" where
  "matmul a b =
     (case (shape a, shape b) of
        (D2 m k, D2 k' n) \<Rightarrow>
          if k = k'
          then Some (mk (D2 m n) (\<lambda>i j. sum_list (map (\<lambda>r. elt a i r * elt b r j) [0..<k])))
          else None
      | _ \<Rightarrow> None)"


section \<open>The example script: \<open>trt_dtype_to_torch\<close>\<close>

text \<open>
  The argument is a value of TensorRT's data type enumeration.  The three members the
  function names are constructors of their own; every other value is \<open>trt_other\<close> with
  its printed form, which the message of the exception shows.
\<close>

datatype trt_dtype = trt_float16 | trt_float32 | trt_int32 | trt_other string

datatype torch_dtype = torch_float16 | torch_float32 | torch_int32

datatype py_error = TypeError string

fun str_dtype :: "trt_dtype \<Rightarrow> string" where
  "str_dtype trt_float16 = ''DataType.HALF''"
| "str_dtype trt_float32 = ''DataType.FLOAT''"
| "str_dtype trt_int32 = ''DataType.INT32''"
| "str_dtype (trt_other s) = s"

definition trt_dtype_to_torch :: "trt_dtype \<Rightarrow> py_error + torch_dtype" where
  "trt_dtype_to_torch dtype =
     (if dtype = trt_float16 then Inr torch_float16
      else if dtype = trt_float32 then Inr torch_float32
      else if dtype = trt_int32 then Inr torch_int32
      else Inl (TypeError (str_dtype dtype @ '' is not supported'')))"

section \<open>The test of the groupwise weight-only matmul\<close>

text \<open>
  The parameters of \<open>_woq_groupwise_matmul\<close>.  The sizes are tensor dimensions, so natural
  numbers; \<open>dtype\<close> is \<open>float16\<close> in every test and selects the element type only.
\<close>

record params =
  dim_m :: nat
  dim_n :: nat
  dim_k :: nat
  has_pre_quant :: bool
  has_zero :: bool
  has_bias :: bool
  group_size :: nat
  uint4_input :: bool
  use_w4a8_awq :: bool

text \<open>
  What the random generator and the unpacking produce in one run: the value at each
  position of each generated tensor, the number \<open>torch.randn(1)\<close> returns, and the 4-bit
  lane at each position of the unpacked weight.
\<close>

record draws =
  activation_vals :: "nat \<Rightarrow> nat \<Rightarrow> real"
  pre_quant_scale_vals :: "nat \<Rightarrow> nat \<Rightarrow> real"
  scale_vals :: "nat \<Rightarrow> nat \<Rightarrow> real"
  zero_vals :: "nat \<Rightarrow> nat \<Rightarrow> real"
  bias_vals :: "nat \<Rightarrow> nat \<Rightarrow> real"
  randn_val :: real
  int4_vals :: "nat \<Rightarrow> nat \<Rightarrow> int"

text \<open>
  Modelled from the spec: \<open>_utils.woq_gen_weights(rows, cols, dtype)\<close> is not among the
  sources.  The data model gives every generated operand the shape it is asked for
  (Activation \<open>m \<times> k\<close>, PreQuantScale \<open>1 \<times> k\<close>, Bias \<open>1 \<times> n\<close>); the values are those of
  the run.
\<close>

definition woq_gen_weights :: "nat \<Rightarrow> nat \<Rightarrow> (nat \<Rightarrow> nat \<Rightarrow> real) \<Rightarrow> tensor" where
  "woq_gen_weights rows cols vals = mk (D2 rows cols) vals"

text \<open>
  Modelled from the spec: \<open>_utils.woq_groupwise_extract_int4\<close> is not among the sources.
  Each element of the packed weight stores 8 logical 4-bit values along the contraction
  dimension, so a packed weight of \<open>rows\<close> rows unpacks to \<open>8 * rows\<close> rows of the same
  \<open>cols\<close> columns.  The lanes are those of the run, already in the convention that
  \<open>uint4_input\<close> names.
\<close>

definition woq_groupwise_extract_int4 :: "nat \<Rightarrow> nat \<Rightarrow> (nat \<Rightarrow> nat \<Rightarrow> int) \<Rightarrow> tensor" where
  "woq_groupwise_extract_int4 rows cols lanes = mk (D2 (8 * rows) cols) (\<lambda>r c. real_of_int (lanes r c))"

text \<open>
  Modelled from the spec: \<open>_utils.woq_groupwise_gt_matmul(mat1, weights, bias)\<close> is not among
  the sources.  It is the reference matmul of the spec: the dense product, plus the bias
  broadcast over the rows, where an absent (empty) bias counts as 0.
\<close>

definition woq_groupwise_gt_matmul :: "tensor \<Rightarrow> tensor \<Rightarrow> tensor \<Rightarrow> tensor option" where
  "woq_groupwise_gt_matmul mat1 ref_torch_weights bias =
     do {
       ref \<leftarrow> matmul mat1 ref_torch_weights;
       if numel bias = 0 then Some ref else ibcast (+) ref bias
     }"

text \<open>The flags of \<open>quant_algo\<close>.\<close>

definition BIAS :: nat where "BIAS = 1"
definition ZERO :: nat where "ZERO = 2"
definition PRE_QUANT_SCALE :: nat where "PRE_QUANT_SCALE = 4"
definition W4A8_AWQ :: nat where "W4A8_AWQ = 8"

definition quant_algo_of :: "params \<Rightarrow> nat" where
  "quant_algo_of p =
     of_bool (use_w4a8_awq p) * W4A8_AWQ + of_bool (has_pre_quant p) * PRE_QUANT_SCALE
       + of_bool (has_zero p) * ZERO + of_bool (has_bias p) * BIAS"

text \<open>A flag is set in a bitmask when its bit is.\<close>

definition flag_set :: "nat \<Rightarrow> nat \<Rightarrow> bool" where
  "flag_set quant_algo flag = odd (quant_algo div flag)"

text \<open>The operands of the multiplication, as they are given to \<open>_run_matmul_plugin\<close>.\<close>

record operands =
  th_activation :: tensor
  th_pre_quant_scale :: tensor
  th_scale :: tensor
  th_zero :: tensor
  th_bias :: tensor
  th_alpha :: tensor

text \<open>
  The initialisation of the operands.  \<open>(k + group_size) // group_size\<close> raises
  ZeroDivisionError for a group size of 0.
\<close>

definition init_operands :: "params \<Rightarrow> draws \<Rightarrow> operands option" where
  "init_operands p d =
     (if group_size p = 0 then None
      else Some
        \<lparr>th_activation = woq_gen_weights (dim_m p) (dim_k p) (activation_vals d),
         th_pre_quant_scale = woq_gen_weights 1 (dim_k p) (pre_quant_scale_vals d),
         th_scale =
           smul 2 (woq_gen_weights ((dim_k p + group_size p) div group_size p) (dim_n p)
                     (scale_vals d)),
         th_zero =
           (if has_zero p
            then smul 2 (woq_gen_weights ((dim_k p + group_size p) div group_size p) (dim_n p)
                           (zero_vals d))
            else Tensor),
         th_bias =
           (if has_bias p then woq_gen_weights 1 (dim_n p) (bias_vals d) else Tensor),
         th_alpha =
           (if use_w4a8_awq p then mk (D1 1) (\<lambda>_ _. randn_val d + 0.5) else Tensor)\<rparr>)"

text \<open>The reference weight: the lines from \<open>input_rows = ...\<close> to \<open>ref_th_weight += zero_ref\<close>.\<close>

definition dequantize :: "params \<Rightarrow> tensor \<Rightarrow> tensor \<Rightarrow> tensor \<Rightarrow> tensor option" where
  "dequantize p qweight_int8 scale zero =
     do {
       let input_rows = shape0 qweight_int8;
       scale_ref \<leftarrow> row (repeat_interleave scale (group_size p)) input_rows;
       scaled \<leftarrow> bcast (*) qweight_int8 scale_ref;
       ref_th_weight \<leftarrow> bcast (-) scaled (smul (of_bool (uint4_input p) * 8) scale_ref);
       if has_zero p
       then do {
         zero_ref \<leftarrow> row (repeat_interleave zero (group_size p)) input_rows;
         ibcast (+) ref_th_weight zero_ref
       }
       else Some ref_th_weight
     }"

text \<open>The activation of the reference: the lines from \<open>if use_w4a8_awq\<close> to the
  \<open>torch.mul\<close> with the repeated pre-quant scale.\<close>

definition scale_activation :: "params \<Rightarrow> tensor \<Rightarrow> tensor \<Rightarrow> tensor \<Rightarrow> tensor option" where
  "scale_activation p activation fp8_alpha pre_quant_scale =
     do {
       activation \<leftarrow> (if use_w4a8_awq p then ibcast (*) activation fp8_alpha else Some activation);
       if has_pre_quant p
       then bcast (*) activation (repeat_rows pre_quant_scale (dim_m p))
       else Some activation
     }"

text \<open>
  What one run of \<open>_woq_groupwise_matmul\<close> leaves: the operands and the flags given to the
  plugin, the reference weight and the reference output.  The packing of the weight for the
  plugin, the plugin itself and the comparison of its output with the reference belong to
  the external runtime and to \<open>_utils\<close>.
\<close>

record test_run =
  plugin_operands :: operands
  quant_algo :: nat
  ref_th_weight :: tensor
  ref :: tensor

definition woq_groupwise_matmul :: "params \<Rightarrow> draws \<Rightarrow> test_run option" where
  "woq_groupwise_matmul p d =
     do {
       ops \<leftarrow> init_operands p d;
       let qweight_int8 = woq_groupwise_extract_int4 (dim_k p div 8) (dim_n p) (int4_vals d);
       w \<leftarrow> dequantize p qweight_int8 (th_scale ops) (th_zero ops);
       let activation = zeros_like (th_activation ops);
       let bias = ones_like (th_bias ops);
       let given = ops\<lparr>th_activation := activation, th_bias := bias\<rparr>;
       activation \<leftarrow> scale_activation p activation (th_alpha ops) (th_pre_quant_scale ops);
       out \<leftarrow> woq_groupwise_gt_matmul activation w bias;
       Some \<lparr>plugin_operands = given, quant_algo = quant_algo_of p, ref_th_weight = w, ref = out\<rparr>
     }"


subsection \<open>Test cases and a run\<close>

text \<open>
  The cases of the five parameterized tests, in the order of the file.  The first two tests
  pass \<open>getSMVersion() < 90\<close> as \<open>uint4_input\<close>, here the argument \<open>pre_hopper\<close>; the three
  Hopper tests pass \<open>uint4_input=False\<close>.
\<close>

definition test_case :: "nat \<Rightarrow> nat \<Rightarrow> nat \<Rightarrow> bool \<Rightarrow> bool \<Rightarrow> bool \<Rightarrow> nat \<Rightarrow> bool \<Rightarrow> bool \<Rightarrow> params" where
  "test_case m n k pre_quant with_zero with_bias gs uint4 w4a8 =
     \<lparr>dim_m = m, dim_n = n, dim_k = k, has_pre_quant = pre_quant, has_zero = with_zero,
      has_bias = with_bias, group_size = gs, uint4_input = uint4, use_w4a8_awq = w4a8\<rparr>"

definition test_matmul_int4_input :: "bool \<Rightarrow> params list" where
  "test_matmul_int4_input pre_hopper =
     [test_case 1 1024 64 False True True 64 pre_hopper False,
      test_case 16 1024 256 False True False 64 pre_hopper False,
      test_case 32 2048 384 False False True 64 pre_hopper False,
      test_case 64 2048 1024 False False False 64 pre_hopper False,
      test_case 1 1024 128 False True True 128 pre_hopper False,
      test_case 16 1024 256 False True False 128 pre_hopper False,
      test_case 32 2048 384 False False True 128 pre_hopper False,
      test_case 64 2048 1024 False False False 128 pre_hopper False]"

definition test_prequant_matmul_int4_input :: "bool \<Rightarrow> params list" where
  "test_prequant_matmul_int4_input pre_hopper =
     [test_case 1 1024 64 True True True 64 pre_hopper False,
      test_case 16 1024 256 True True False 64 pre_hopper False,
      test_case 32 2048 384 True False True 64 pre_hopper False,
      test_case 64 2048 1024 True False False 64 pre_hopper False,
      test_case 1 1024 128 True True True 128 pre_hopper False,
      test_case 16 1024 256 True True False 128 pre_hopper False,
      test_case 32 2048 384 True False True 128 pre_hopper False,
      test_case 64 2048 1024 True False False 128 pre_hopper False]"

definition test_prequant_matmul_fp8_int4_input_hopper :: "params list" where
  "test_prequant_matmul_fp8_int4_input_hopper =
     [test_case 1 1024 128 True True True 64 False False,
      test_case 1 1024 128 True True True 128 False False,
      test_case 16 1024 256 True True False 128 False True,
      test_case 32 2048 384 True False True 128 False False,
      test_case 64 2048 1024 True False False 128 False True]"

definition test_hopper_fp16_int4_flexible_groups :: "params list" where
  "test_hopper_fp16_int4_flexible_groups =
     [test_case 32 1024 128 True True True 64 False False,
      test_case 32 1024 128 True True True 128 False False,
      test_case 32 1024 256 True True False 192 False False,
      test_case 32 2048 384 True False True 256 False False,
      test_case 64 2048 1024 True False False 320 False False]"

definition test_hopper_fp8_int4_flexible_groups :: "params list" where
  "test_hopper_fp8_int4_flexible_groups =
     [test_case 32 1024 128 True True True 128 False True,
      test_case 32 1024 128 True True True 256 False True,
      test_case 32 1024 256 True True False 384 False True,
      test_case 32 2048 1024 True False True 512 False True,
      test_case 64 2048 2048 True False False 640 False True]"

definition all_test_cases :: "bool \<Rightarrow> params list" where
  "all_test_cases pre_hopper =
     test_matmul_int4_input pre_hopper @ test_prequant_matmul_int4_input pre_hopper
       @ test_prequant_matmul_fp8_int4_input_hopper @ test_hopper_fp16_int4_flexible_groups
       @ test_hopper_fp8_int4_flexible_groups"

text \<open>The first case of \<open>test_matmul_int4_input\<close>, the third case of
  \<open>test_hopper_fp16_int4_flexible_groups\<close> and the third case of
  \<open>test_prequant_matmul_fp8_int4_input_hopper\<close>.\<close>

definition test_matmul_int4_input_0 :: "bool \<Rightarrow> params" where
  "test_matmul_int4_input_0 pre_hopper =
     \<lparr>dim_m = 1, dim_n = 1024, dim_k = 64, has_pre_quant = False, has_zero = True,
      has_bias = True, group_size = 64, uint4_input = pre_hopper, use_w4a8_awq = False\<rparr>"

definition test_hopper_fp16_int4_flexible_groups_2 :: params where
  "test_hopper_fp16_int4_flexible_groups_2 =
     \<lparr>dim_m = 32, dim_n = 1024, dim_k = 256, has_pre_quant = True, has_zero = True,
      has_bias = False, group_size = 192, uint4_input = False, use_w4a8_awq = False\<rparr>"

definition test_prequant_matmul_fp8_int4_input_hopper_2 :: params where
  "test_prequant_matmul_fp8_int4_input_hopper_2 =
     \<lparr>dim_m = 16, dim_n = 1024, dim_k = 256, has_pre_quant = True, has_zero = True,
      has_bias = False, group_size = 128, uint4_input = False, use_w4a8_awq = True\<rparr>"

text \<open>
  One possible run: every scale of group 0 is drawn as \<open>1/2\<close> and every scale of the later
  groups as \<open>1/4\<close>, every zero of group 0 as \<open>1/4\<close> and of the later groups as \<open>1/8\<close>,
  and every unpacked lane is 3.
\<close>

definition example_draws :: draws where
  "example_draws =
     \<lparr>activation_vals = (\<lambda>_ _. 1 / 2),
      pre_quant_scale_vals = (\<lambda>_ _. 1 / 2),
      scale_vals = (\<lambda>g _. if g = 0 then 1 / 2 else 1 / 4),
      zero_vals = (\<lambda>g _. if g = 0 then 1 / 4 else 1 / 8),
      bias_vals = (\<lambda>_ _. 1 / 2),
      randn_val = 0,
      int4_vals = (\<lambda>_ _. 3)\<rparr>"

text \<open>The same run, except that the scales of the groups after group 0 are drawn as \<open>1/2\<close>.\<close>

definition example_draws_other_scale :: draws where
  "example_draws_other_scale = example_draws\<lparr>scale_vals := (\<lambda>_ _. 1 / 2)\<rparr>"

subsection \<open>The dequantization as the specification words it\<close>

text \<open>
  The value the specification gives the dequantized weight at row \<open>r\<close> and column \<open>c\<close>:
  the unpacked lane times the scale of the group \<open>r // group_size\<close> of the row, less 8 times
  that scale under the unsigned convention, plus the zero of that group when there is one.
\<close>

definition spec_dequantized :: "params \<Rightarrow> (nat \<Rightarrow> nat \<Rightarrow> real) \<Rightarrow> tensor \<Rightarrow> tensor \<Rightarrow> nat \<Rightarrow> nat \<Rightarrow> real" where
  "spec_dequantized p unpacked scale zero r c =
     unpacked r c * elt scale (r div group_size p) c
       - (if uint4_input p then 8 * elt scale (r div group_size p) c else 0)
       + (if has_zero p then elt zero (r div group_size p) c else 0)"

subsection \<open>The two sides of the pre-scale property\<close>

text \<open>
  \<open>matmul(A * s, W)\<close>, the path of the reference for a pre-quant scale: the activation times
  the scale, then the product with the weight.
\<close>

definition prescaled_matmul :: "tensor \<Rightarrow> tensor \<Rightarrow> tensor \<Rightarrow> tensor option" where
  "prescaled_matmul a s w = do { x \<leftarrow> bcast (*) a s; matmul x w }"

text \<open>\<open>matmul(A, W) * s\<close>, the other side as the specification words it.\<close>

definition spec_scaled_matmul :: "tensor \<Rightarrow> tensor \<Rightarrow> tensor \<Rightarrow> tensor option" where
  "spec_scaled_matmul a s w = do { y \<leftarrow> matmul a w; bcast (*) y s }"

text \<open>An activation of shape \<open>1 \<times> 2\<close>, a scale of shape \<open>1 \<times> 2\<close> and a weight of shape
  \<open>2 \<times> 2\<close>.\<close>

definition small_activation :: tensor where
  "small_activation = \<lparr>shape = D2 1 2, data = [1, 0]\<rparr>"

definition small_scale :: tensor where
  "small_scale = \<lparr>shape = D2 1 2, data = [2, 3]\<rparr>"

definition small_weight :: tensor where
  "small_weight = \<lparr>shape = D2 2 2, data = [1, 1, 0, 0]\<rparr>"

text \<open>A scale of shape \<open>1 \<times> 2\<close> with the same value in every channel, and a bias of shape
  \<open>1 \<times> 2\<close>.\<close>

definition small_uniform_scale :: tensor where
  "small_uniform_scale = \<lparr>shape = D2 1 2, data = [2, 2]\<rparr>"

definition small_bias :: tensor where
  "small_bias = \<lparr>shape = D2 1 2, data = [1, 1]\<rparr>"

section \<open>Tensors: reading what was built\<close>

lemma idx_lt: "i < r \<Longrightarrow> j < c \<Longrightarrow> i * c + j < r * (c::nat)"
proof -
  assume a: "i < r" "j < c"
  then have "i * c + j < (Suc i) * c" by simp
  also have "\<dots> \<le> r * c" using a(1) by (intro mult_le_mono1) simp
  finally show ?thesis .
qed

lemma shape_mk [simp]: "shape (mk s f) = s"
  by (cases s) simp_all

lemma numel_mk2 [simp]: "numel (mk (D2 r c) f) = r * c"
  by (simp add: numel_def)

lemma well_formed_mk [simp]: "well_formed (mk s f)"
  by (cases s) (simp_all add: well_formed_def numel_def)

lemma elt_mk2 [simp]: "i < r \<Longrightarrow> j < c \<Longrightarrow> elt (mk (D2 r c) f) i j = f i j"
  using idx_lt [of i r j c] by (simp add: elt_def)

lemma elt_mk1 [simp]: "j < l \<Longrightarrow> elt (mk (D1 l) f) 0 j = f 0 j"
  by (simp add: elt_def)

lemma at2_mk [simp]: "i < r \<Longrightarrow> j < c \<Longrightarrow> at2 (mk (D2 r c) f) i j = Some (f i j)"
  using idx_lt [of i r j c] by (simp add: at2_def)

lemma mk2_cong: "(\<And>i j. i < r \<Longrightarrow> j < c \<Longrightarrow> f i j = g i j) \<Longrightarrow> mk (D2 r c) f = mk (D2 r c) g"
proof -
  assume h: "\<And>i j. i < r \<Longrightarrow> j < c \<Longrightarrow> f i j = g i j"
  have "f (p div c) (p mod c) = g (p div c) (p mod c)" if "p < r * c" for p
  proof -
    from that have c: "0 < c" by (cases c) simp_all
    have "p div c < r" using that c by (simp add: less_mult_imp_div_less)
    moreover have "p mod c < c" using c by simp
    ultimately show ?thesis by (rule h)
  qed
  then show ?thesis by simp
qed

lemma mk1_cong: "(\<And>j. j < l \<Longrightarrow> f 0 j = g 0 j) \<Longrightarrow> mk (D1 l) f = mk (D1 l) g"
  by simp

lemma data_mk2_empty [simp]: "data (mk (D2 r 0) f) = []" "data (mk (D2 0 c) f) = []"
  by simp_all


lemma well_formed_D1_eq_mk: "well_formed t \<Longrightarrow> shape t = D1 l \<Longrightarrow> t = mk (D1 l) (elt t)"
  by (cases t) (auto simp: well_formed_def numel_def elt_def intro!: nth_equalityI)

declare mk.simps [simp del]

lemma numel_mk1 [simp]: "numel (mk (D1 l) f) = l"
  by (simp add: numel_def)

lemma shape0_mk2 [simp]: "shape0 (mk (D2 r c) f) = r"
  by (simp add: shape0_def)

lemma numel_Tensor [simp]: "numel Tensor = 0"
  by (simp add: numel_def Tensor_def)

lemma ones_like_Tensor [simp]: "ones_like Tensor = Tensor"
  by (simp add: ones_like_def Tensor_def)

lemma zeros_like_mk2 [simp]: "zeros_like (mk (D2 r c) f) = mk (D2 r c) (\<lambda>_ _. 0)"
  by (simp add: zeros_like_def comp_def mk.simps)

lemma ones_like_mk2 [simp]: "ones_like (mk (D2 r c) f) = mk (D2 r c) (\<lambda>_ _. 1)"
  by (simp add: ones_like_def comp_def mk.simps)

lemma smul_mk: "smul x (mk s f) = mk s (\<lambda>i j. x * f i j)"
  by (cases s) (simp_all add: smul_def comp_def mk.simps)

lemma row_mk2: "i < r \<Longrightarrow> row (mk (D2 r c) f) i = Some (mk (D1 c) (\<lambda>_ j. f i j))"
  by (auto simp: row_def intro!: mk1_cong)

lemma repeat_interleave_mk2:
  "0 < g \<Longrightarrow> repeat_interleave (mk (D2 r c) f) g = mk (D2 (r * g) c) (\<lambda>i j. f (i div g) j)"
  unfolding repeat_interleave_def
  by (auto intro!: mk2_cong simp: less_mult_imp_div_less mult.commute)

lemma repeat_rows_mk2:
  "repeat_rows (mk (D2 (Suc 0) c) f) m = mk (D2 m c) (\<lambda>i j. f 0 j)"
  unfolding repeat_rows_def
  by (auto intro!: mk2_cong)

section \<open>Tensors: broadcasting and the matrix product\<close>

lemma bdim_same [simp]: "bdim x x = Some x"
  by (simp add: bdim_def)

lemma bdim_one [simp]: "bdim x (Suc 0) = Some x"
  by (simp add: bdim_def)

lemma bcast_D2:
  assumes a: "shape a = D2 r c"
    and b: "bdims (shape b) = (rb, cb)"
    and rb: "rb = r \<or> rb = 1"
    and cb: "cb = c \<or> cb = 1"
  shows "bcast f a b =
    Some (mk (D2 r c) (\<lambda>i j. f (elt a i j) (elt b (if rb = 1 then 0 else i) (if cb = 1 then 0 else j))))"
proof -
  have r: "bdim r rb = Some r" using rb by auto
  have c: "bdim c cb = Some c" using cb by auto
  have s: "(case (shape a, shape b) of (D1 _, D1 _) \<Rightarrow> D1 c | _ \<Rightarrow> D2 r c) = D2 r c"
    by (simp add: a)
  have "mk (D2 r c) (\<lambda>i j. f (elt a (if r = 1 then 0 else i) (if c = 1 then 0 else j))
                             (elt b (if rb = 1 then 0 else i) (if cb = 1 then 0 else j)))
      = mk (D2 r c) (\<lambda>i j. f (elt a i j) (elt b (if rb = 1 then 0 else i) (if cb = 1 then 0 else j)))"
    by (rule mk2_cong) auto
  then show ?thesis
    unfolding bcast_def by (simp add: a b r c)
qed

lemma ibcast_D2:
  assumes a: "shape a = D2 r c"
    and b: "bdims (shape b) = (rb, cb)"
    and rb: "rb = r \<or> rb = 1"
    and cb: "cb = c \<or> cb = 1"
  shows "ibcast f a b =
    Some (mk (D2 r c) (\<lambda>i j. f (elt a i j) (elt b (if rb = 1 then 0 else i) (if cb = 1 then 0 else j))))"
  unfolding ibcast_def by (simp add: bcast_D2 [OF a b rb cb] a)

lemma bcast_row:
  assumes "shape a = D2 r c" and "shape b = D2 1 c"
  shows "bcast f a b = Some (mk (D2 r c) (\<lambda>i j. f (elt a i j) (elt b 0 j)))"
proof -
  have "bcast f a b = Some (mk (D2 r c)
      (\<lambda>i j. f (elt a i j) (elt b (if (1::nat) = 1 then 0 else i) (if c = 1 then 0 else j))))"
    by (rule bcast_D2) (simp_all add: assms)
  also have "mk (D2 r c)
      (\<lambda>i j. f (elt a i j) (elt b (if (1::nat) = 1 then 0 else i) (if c = 1 then 0 else j)))
    = mk (D2 r c) (\<lambda>i j. f (elt a i j) (elt b 0 j))"
    by (rule mk2_cong) auto
  finally show ?thesis .
qed

lemma ibcast_row:
  assumes "shape a = D2 r c" and "shape b = D2 1 c"
  shows "ibcast f a b = Some (mk (D2 r c) (\<lambda>i j. f (elt a i j) (elt b 0 j)))"
  by (simp add: ibcast_def bcast_row [OF assms] assms)


lemma bcast_mk2_mk1:
  "bcast f (mk (D2 r c) fa) (mk (D1 c) fb) = Some (mk (D2 r c) (\<lambda>i j. f (fa i j) (fb 0 j)))"
proof -
  have "bcast f (mk (D2 r c) fa) (mk (D1 c) fb) =
    Some (mk (D2 r c) (\<lambda>i j. f (elt (mk (D2 r c) fa) i j)
       (elt (mk (D1 c) fb) (if (1::nat) = 1 then 0 else i) (if c = 1 then 0 else j))))"
    by (rule bcast_D2) simp_all
  also have "mk (D2 r c) (\<lambda>i j. f (elt (mk (D2 r c) fa) i j)
       (elt (mk (D1 c) fb) (if (1::nat) = 1 then 0 else i) (if c = 1 then 0 else j)))
     = mk (D2 r c) (\<lambda>i j. f (fa i j) (fb 0 j))"
    by (rule mk2_cong) auto
  finally show ?thesis .
qed

lemma ibcast_mk2_mk1:
  "ibcast f (mk (D2 r c) fa) (mk (D1 c) fb) = Some (mk (D2 r c) (\<lambda>i j. f (fa i j) (fb 0 j)))"
  by (simp add: ibcast_def bcast_mk2_mk1)

lemma bcast_mk2_mk2:
  "bcast f (mk (D2 r c) fa) (mk (D2 r c) fb) = Some (mk (D2 r c) (\<lambda>i j. f (fa i j) (fb i j)))"
proof -
  have "bcast f (mk (D2 r c) fa) (mk (D2 r c) fb) =
    Some (mk (D2 r c) (\<lambda>i j. f (elt (mk (D2 r c) fa) i j)
       (elt (mk (D2 r c) fb) (if r = 1 then 0 else i) (if c = 1 then 0 else j))))"
    by (rule bcast_D2) simp_all
  also have "mk (D2 r c) (\<lambda>i j. f (elt (mk (D2 r c) fa) i j)
       (elt (mk (D2 r c) fb) (if r = 1 then 0 else i) (if c = 1 then 0 else j)))
     = mk (D2 r c) (\<lambda>i j. f (fa i j) (fb i j))"
    by (rule mk2_cong) auto
  finally show ?thesis .
qed

lemma ibcast_mk2_row:
  "ibcast f (mk (D2 r c) fa) (mk (D2 (Suc 0) c) fb) = Some (mk (D2 r c) (\<lambda>i j. f (fa i j) (fb 0 j)))"
proof -
  have "ibcast f (mk (D2 r c) fa) (mk (D2 (Suc 0) c) fb) =
    Some (mk (D2 r c) (\<lambda>i j. f (elt (mk (D2 r c) fa) i j)
       (elt (mk (D2 (Suc 0) c) fb) (if Suc 0 = 1 then 0 else i) (if c = 1 then 0 else j))))"
    by (rule ibcast_D2) simp_all
  also have "mk (D2 r c) (\<lambda>i j. f (elt (mk (D2 r c) fa) i j)
       (elt (mk (D2 (Suc 0) c) fb) (if Suc 0 = 1 then 0 else i) (if c = 1 then 0 else j)))
     = mk (D2 r c) (\<lambda>i j. f (fa i j) (fb 0 j))"
    by (rule mk2_cong) auto
  finally show ?thesis .
qed

lemma ibcast_mk2_scalar:
  "ibcast f (mk (D2 r c) fa) (mk (D1 (Suc 0)) fb) = Some (mk (D2 r c) (\<lambda>i j. f (fa i j) (fb 0 0)))"
proof -
  have "ibcast f (mk (D2 r c) fa) (mk (D1 (Suc 0)) fb) =
    Some (mk (D2 r c) (\<lambda>i j. f (elt (mk (D2 r c) fa) i j)
       (elt (mk (D1 (Suc 0)) fb) (if (1::nat) = 1 then 0 else i) (if (1::nat) = 1 then 0 else j))))"
    by (rule ibcast_D2) simp_all
  also have "mk (D2 r c) (\<lambda>i j. f (elt (mk (D2 r c) fa) i j)
       (elt (mk (D1 (Suc 0)) fb) (if (1::nat) = 1 then 0 else i) (if (1::nat) = 1 then 0 else j)))
     = mk (D2 r c) (\<lambda>i j. f (fa i j) (fb 0 0))"
    by (rule mk2_cong) auto
  finally show ?thesis .
qed

lemma matmul_D2:
  "shape a = D2 m k \<Longrightarrow> shape b = D2 k n \<Longrightarrow>
   matmul a b = Some (mk (D2 m n) (\<lambda>i j. sum_list (map (\<lambda>r. elt a i r * elt b r j) [0..<k])))"
  by (simp add: matmul_def)

lemma matmul_mk:
  "matmul (mk (D2 m k) fa) (mk (D2 k n) fb) =
   Some (mk (D2 m n) (\<lambda>i j. sum_list (map (\<lambda>r. fa i r * fb r j) [0..<k])))"
proof -
  have "mk (D2 m n) (\<lambda>i j. sum_list (map (\<lambda>r. elt (mk (D2 m k) fa) i r * elt (mk (D2 k n) fb) r j) [0..<k]))
      = mk (D2 m n) (\<lambda>i j. sum_list (map (\<lambda>r. fa i r * fb r j) [0..<k]))"
    by (rule mk2_cong) (auto intro!: arg_cong [where f = sum_list])
  then show ?thesis by (simp add: matmul_D2)
qed

lemma sum_list_zero: "sum_list (map (\<lambda>r. (0::real)) xs) = 0"
  by (induction xs) simp_all

lemma sum_list_mult_right: "sum_list (map (\<lambda>r. f r * (t::real)) xs) = sum_list (map f xs) * t"
  by (induction xs) (simp_all add: distrib_right)

section \<open>Groups of rows and flags\<close>

text \<open>The row \<open>k\<close> lies inside the \<open>(k + g) // g\<close> groups of \<open>g\<close> rows, and so does the group of
  every row below \<open>k\<close>.\<close>

lemma group_rows_cover: "0 < g \<Longrightarrow> k < (k + g) div g * (g::nat)"
proof -
  assume g: "0 < g"
  have "(k + g) div g = Suc (k div g)" using g by simp
  moreover have "k = k div g * g + k mod g" by simp
  moreover have "k mod g < g" using g by simp
  ultimately show ?thesis by (metis add.commute add_less_cancel_left mult_Suc)
qed

lemma row_group_in_range: "0 < g \<Longrightarrow> r < k \<Longrightarrow> r div g < (k + g) div (g::nat)"
proof -
  assume g: "0 < g" and r: "r < k"
  have "r div g \<le> k div g" using r by (simp add: div_le_mono)
  moreover have "(k + g) div g = Suc (k div g)" using g by simp
  ultimately show ?thesis by simp
qed

lemma ceil_div_nat:
  assumes g: "0 < g"
  shows "nat \<lceil>real k / real g\<rceil> = (if g dvd k then k div g else k div g + 1)"
proof (cases "g dvd k")
  case True
  then have "real k / real g = real (k div g)"
    by (simp add: real_of_nat_div)
  then show ?thesis using True by simp
next
  case False
  have m: "0 < k mod g" "k mod g < g"
    using False g by (auto simp: dvd_eq_mod_eq_0)
  have "k = k div g * g + k mod g" by simp
  then have k: "real k = real (k div g) * real g + real (k mod g)"
    by (metis of_nat_add of_nat_mult)
  have "\<lceil>real k / real g\<rceil> = int (k div g) + 1"
  proof (rule ceiling_unique)
    show "real_of_int (int (k div g) + 1) - 1 < real k / real g"
      using m g by (subst k) (simp add: field_simps)
    show "real k / real g \<le> real_of_int (int (k div g) + 1)"
      using m g by (subst k) (simp add: field_simps)
  qed
  then show ?thesis using False by simp
qed

lemma flag_set_quant_algo_of:
  "flag_set (quant_algo_of p) BIAS = has_bias p \<and>
   flag_set (quant_algo_of p) ZERO = has_zero p \<and>
   flag_set (quant_algo_of p) PRE_QUANT_SCALE = has_pre_quant p \<and>
   flag_set (quant_algo_of p) W4A8_AWQ = use_w4a8_awq p"
  by (cases "has_bias p"; cases "has_zero p"; cases "has_pre_quant p"; cases "use_w4a8_awq p";
      simp add: flag_set_def quant_algo_of_def BIAS_def ZERO_def PRE_QUANT_SCALE_def W4A8_AWQ_def)

section \<open>The stages of the test\<close>

lemma init_operands_Some:
  "0 < group_size p \<Longrightarrow>
   init_operands p d = Some
     \<lparr>th_activation = mk (D2 (dim_m p) (dim_k p)) (activation_vals d),
      th_pre_quant_scale = mk (D2 1 (dim_k p)) (pre_quant_scale_vals d),
      th_scale = mk (D2 ((dim_k p + group_size p) div group_size p) (dim_n p))
                   (\<lambda>g c. 2 * scale_vals d g c),
      th_zero = (if has_zero p
                 then mk (D2 ((dim_k p + group_size p) div group_size p) (dim_n p))
                        (\<lambda>g c. 2 * zero_vals d g c)
                 else Tensor),
      th_bias = (if has_bias p then mk (D2 1 (dim_n p)) (bias_vals d) else Tensor),
      th_alpha = (if use_w4a8_awq p then mk (D1 1) (\<lambda>_ _. randn_val d + 0.5) else Tensor)\<rparr>"
  by (simp add: init_operands_def woq_gen_weights_def smul_mk)

lemma extract_rows:
  "8 dvd k \<Longrightarrow> woq_groupwise_extract_int4 (k div 8) n lanes = mk (D2 k n) (\<lambda>r c. real_of_int (lanes r c))"
  by (simp add: woq_groupwise_extract_int4_def)

lemma dequantize_mk:
  assumes g: "0 < group_size p" and cover: "rows < G * group_size p"
  shows "dequantize p (mk (D2 rows n) q) (mk (D2 G n) s)
           (if has_zero p then mk (D2 G n) z else zt) =
    Some (mk (D2 rows n) (\<lambda>r c. q r c * s (rows div group_size p) c
        - of_bool (uint4_input p) * 8 * s (rows div group_size p) c
        + (if has_zero p then z (rows div group_size p) c else 0)))"
  using g cover
  by (simp add: dequantize_def repeat_interleave_mk2 row_mk2 bcast_mk2_mk1 smul_mk
      ibcast_mk2_mk1)

lemma scale_activation_mk:
  "scale_activation p (mk (D2 (dim_m p) k) a)
      (if use_w4a8_awq p then mk (D1 1) al else t0) (mk (D2 1 k) s) =
   Some (mk (D2 (dim_m p) k)
     (\<lambda>i r. if has_pre_quant p
             then (if use_w4a8_awq p then a i r * al 0 0 else a i r) * s 0 r
             else (if use_w4a8_awq p then a i r * al 0 0 else a i r)))"
  by (simp add: scale_activation_def ibcast_mk2_scalar repeat_rows_mk2 bcast_mk2_mk2)


lemma gt_matmul_zero_activation:
  "woq_groupwise_gt_matmul (mk (D2 m k) (\<lambda>_ _. 0)) (mk (D2 k n) w)
      (if b then mk (D2 1 n) (\<lambda>_ _. 1) else Tensor) =
   Some (mk (D2 m n) (\<lambda>_ _. of_bool b))"
  by (auto simp: woq_groupwise_gt_matmul_def matmul_mk ibcast_mk2_row sum_list_zero
      intro!: mk2_cong)

lemma woq_groupwise_matmul_run:
  assumes g: "0 < group_size p" and k: "8 dvd dim_k p"
  shows "woq_groupwise_matmul p d = Some
    \<lparr>plugin_operands =
       \<lparr>th_activation = mk (D2 (dim_m p) (dim_k p)) (\<lambda>_ _. 0),
        th_pre_quant_scale = mk (D2 1 (dim_k p)) (pre_quant_scale_vals d),
        th_scale = mk (D2 ((dim_k p + group_size p) div group_size p) (dim_n p))
                     (\<lambda>g c. 2 * scale_vals d g c),
        th_zero = (if has_zero p
                   then mk (D2 ((dim_k p + group_size p) div group_size p) (dim_n p))
                          (\<lambda>g c. 2 * zero_vals d g c)
                   else Tensor),
        th_bias = (if has_bias p then mk (D2 1 (dim_n p)) (\<lambda>_ _. 1) else Tensor),
        th_alpha = (if use_w4a8_awq p then mk (D1 1) (\<lambda>_ _. randn_val d + 0.5) else Tensor)\<rparr>,
     quant_algo = quant_algo_of p,
     ref_th_weight = mk (D2 (dim_k p) (dim_n p))
       (\<lambda>r c. real_of_int (int4_vals d r c) * (2 * scale_vals d (dim_k p div group_size p) c)
          - of_bool (uint4_input p) * 8 * (2 * scale_vals d (dim_k p div group_size p) c)
          + (if has_zero p then 2 * zero_vals d (dim_k p div group_size p) c else 0)),
     ref = mk (D2 (dim_m p) (dim_n p)) (\<lambda>_ _. of_bool (has_bias p))\<rparr>"
proof -
  let ?G = "(dim_k p + group_size p) div group_size p"
  have cover: "dim_k p < ?G * group_size p"
    using g by (rule group_rows_cover)
  note deq = dequantize_mk [OF g cover, of "dim_n p" "\<lambda>r c. real_of_int (int4_vals d r c)"
      "\<lambda>g c. 2 * scale_vals d g c" "\<lambda>g c. 2 * zero_vals d g c" Tensor]
  note act = scale_activation_mk [of p "dim_k p" "\<lambda>_ _. 0" "\<lambda>_ _. randn_val d + 0.5" Tensor
      "pre_quant_scale_vals d"]
  have act0: "scale_activation p (mk (D2 (dim_m p) (dim_k p)) (\<lambda>_ _. 0))
      (if use_w4a8_awq p then mk (D1 1) (\<lambda>_ _. randn_val d + 0.5) else Tensor)
      (mk (D2 1 (dim_k p)) (pre_quant_scale_vals d)) = Some (mk (D2 (dim_m p) (dim_k p)) (\<lambda>_ _. 0))"
    unfolding act by (cases "has_pre_quant p"; cases "use_w4a8_awq p"; simp)
  have bias: "ones_like (if has_bias p then mk (D2 1 (dim_n p)) (bias_vals d) else Tensor)
     = (if has_bias p then mk (D2 1 (dim_n p)) (\<lambda>_ _. 1) else Tensor)"
    by simp
  show ?thesis
    unfolding woq_groupwise_matmul_def
    by (simp add: init_operands_Some [OF g] extract_rows [OF k] deq act0 bias
        gt_matmul_zero_activation Let_def del: One_nat_def)
qed

lemma reference_weight_value:
  assumes g: "0 < group_size p" and k: "8 dvd dim_k p" and r: "r < dim_k p" and c: "c < dim_n p"
  shows "Option.bind (woq_groupwise_matmul p d) (\<lambda>run. at2 (ref_th_weight run) r c) =
    Some (real_of_int (int4_vals d r c) * (2 * scale_vals d (dim_k p div group_size p) c)
          - of_bool (uint4_input p) * 8 * (2 * scale_vals d (dim_k p div group_size p) c)
          + (if has_zero p then 2 * zero_vals d (dim_k p div group_size p) c else 0))"
  unfolding woq_groupwise_matmul_run [OF g k] using r c by simp

lemma named_test_cases:
  "test_matmul_int4_input_0 pre_hopper = test_matmul_int4_input pre_hopper ! 0"
  "test_hopper_fp16_int4_flexible_groups_2 = test_hopper_fp16_int4_flexible_groups ! 2"
  "test_prequant_matmul_fp8_int4_input_hopper_2 = test_prequant_matmul_fp8_int4_input_hopper ! 2"
  by (simp_all add: test_matmul_int4_input_0_def test_matmul_int4_input_def
      test_hopper_fp16_int4_flexible_groups_2_def test_hopper_fp16_int4_flexible_groups_def
      test_prequant_matmul_fp8_int4_input_hopper_2_def
      test_prequant_matmul_fp8_int4_input_hopper_def test_case_def)

lemma all_test_cases_reach_reference:
  "list_all (\<lambda>p. 0 < group_size p \<and> 8 dvd dim_k p \<and> 0 < dim_n p) (all_test_cases pre_hopper)"
  by (simp add: all_test_cases_def test_matmul_int4_input_def test_prequant_matmul_int4_input_def
      test_prequant_matmul_fp8_int4_input_hopper_def test_hopper_fp16_int4_flexible_groups_def
      test_hopper_fp8_int4_flexible_groups_def test_case_def)

lemma woq_groupwise_matmul_zero_group_size:
  "group_size p = 0 \<Longrightarrow> woq_groupwise_matmul p d = None"
  by (simp add: woq_groupwise_matmul_def init_operands_def)

lemma woq_groupwise_matmul_partial_pack:
  assumes g: "0 < group_size p" and k: "\<not> 8 dvd dim_k p"
  shows "woq_groupwise_matmul p d = None"
proof -
  let ?G = "(dim_k p + group_size p) div group_size p"
  let ?rows = "8 * (dim_k p div 8)"
  have ne: "dim_k p \<noteq> ?rows" using k by (metis dvd_triv_left)
  have "?rows \<le> dim_k p" by simp
  then have cover: "?rows < ?G * group_size p"
    using group_rows_cover [OF g, of "dim_k p"] by linarith
  note deq = dequantize_mk [OF g cover, of "dim_n p" "\<lambda>r c. real_of_int (int4_vals d r c)"
      "\<lambda>g c. 2 * scale_vals d g c" "\<lambda>g c. 2 * zero_vals d g c" Tensor]
  note act = scale_activation_mk [of p "dim_k p" "\<lambda>_ _. 0" "\<lambda>_ _. randn_val d + 0.5" Tensor
      "pre_quant_scale_vals d"]
  have mm: "matmul (mk (D2 (dim_m p) (dim_k p)) f) (mk (D2 ?rows (dim_n p)) h) = None" for f h
    using ne by (simp add: matmul_def)
  show ?thesis
    unfolding woq_groupwise_matmul_def
    by (simp add: init_operands_Some [OF g] woq_groupwise_extract_int4_def deq act
        woq_groupwise_gt_matmul_def mm Let_def del: One_nat_def)
qed

section \<open>The example script\<close>

text \<open>
  Claim C10.  \<open>trt_dtype_to_torch\<close> returns \<open>torch.float16\<close> for \<open>trt.float16\<close>,
  \<open>torch.float32\<close> for \<open>trt.float32\<close> and \<open>torch.int32\<close> for \<open>trt.int32\<close>; for every
  other value it raises TypeError, and it returns a value for the three supported inputs
  only.
\<close>

theorem trt_dtype_to_torch_supported:
  "trt_dtype_to_torch trt_float16 = Inr torch_float16 \<and>
   trt_dtype_to_torch trt_float32 = Inr torch_float32 \<and>
   trt_dtype_to_torch trt_int32 = Inr torch_int32 \<and>
   trt_dtype_to_torch (trt_other s) = Inl (TypeError (s @ '' is not supported'')) \<and>
   (\<exists>t. trt_dtype_to_torch dtype = Inr t) = (dtype \<in> {trt_float16, trt_float32, trt_int32})"
  by (cases dtype) (simp_all add: trt_dtype_to_torch_def)

section \<open>The test of the groupwise weight-only matmul: the run\<close>

text \<open>
  Claim C2.  In every run that reaches the reference (a positive group size, and a
  contraction dimension that is a multiple of the 8 lanes of a packed element, as in every
  case of the test file), the activation given to the plugin and to the reference is the
  all-zero \<open>m \<times> k\<close> matrix and the bias is all ones, and the reference output is the
  \<open>m \<times> n\<close> matrix of ones when \<open>has_bias\<close> holds and of zeros when it does not,
  whatever the weight, the scale, the zero, alpha and the pre-quant scale are: a second run
  \<open>d'\<close> with the same parameters has the same reference output.
\<close>


theorem reference_output_bias_only:
  assumes g: "0 < group_size p" and k: "8 dvd dim_k p"
  shows "\<exists>run. woq_groupwise_matmul p d = Some run \<and>
      th_activation (plugin_operands run) = mk (D2 (dim_m p) (dim_k p)) (\<lambda>_ _. 0) \<and>
      th_bias (plugin_operands run) = (if has_bias p then mk (D2 1 (dim_n p)) (\<lambda>_ _. 1) else Tensor) \<and>
      ref run = mk (D2 (dim_m p) (dim_n p)) (\<lambda>_ _. if has_bias p then 1 else 0) \<and>
      map_option ref (woq_groupwise_matmul p d') = Some (ref run)"
proof -
  have e: "(\<lambda>_ _. of_bool (has_bias p)) = (\<lambda>(_::nat) (_::nat). if has_bias p then 1 else (0::real))"
    by (simp add: of_bool_def)
  show ?thesis
    by (simp add: woq_groupwise_matmul_run [OF g k] e)
qed

theorem reference_output_bias_only_witness:
  "0 < group_size test_prequant_matmul_fp8_int4_input_hopper_2 \<and>
   8 dvd dim_k test_prequant_matmul_fp8_int4_input_hopper_2 \<and>
   (\<exists>run. woq_groupwise_matmul test_prequant_matmul_fp8_int4_input_hopper_2 example_draws = Some run \<and>
      th_activation (plugin_operands run) = mk (D2 16 256) (\<lambda>_ _. 0) \<and>
      th_bias (plugin_operands run) = Tensor \<and>
      ref run = mk (D2 16 1024) (\<lambda>_ _. 0) \<and>
      map_option ref (woq_groupwise_matmul test_prequant_matmul_fp8_int4_input_hopper_2
          example_draws_other_scale) = Some (ref run))"
proof -
  have g: "0 < group_size test_prequant_matmul_fp8_int4_input_hopper_2"
    by (simp add: test_prequant_matmul_fp8_int4_input_hopper_2_def)
  have k: "8 dvd dim_k test_prequant_matmul_fp8_int4_input_hopper_2"
    by (simp add: test_prequant_matmul_fp8_int4_input_hopper_2_def)
  have s: "dim_m test_prequant_matmul_fp8_int4_input_hopper_2 = 16"
    "dim_n test_prequant_matmul_fp8_int4_input_hopper_2 = 1024"
    "dim_k test_prequant_matmul_fp8_int4_input_hopper_2 = 256"
    "has_bias test_prequant_matmul_fp8_int4_input_hopper_2 = False"
    by (simp_all add: test_prequant_matmul_fp8_int4_input_hopper_2_def)
  show ?thesis
    using g k reference_output_bias_only [OF g k, of example_draws example_draws_other_scale]
    unfolding s by simp
qed



text \<open>
  Claim C3, as amended.  For a positive group size the Scale tensor has exactly
  \<open>(k + group_size) // group_size = k // group_size + 1\<close> rows and \<open>n\<close> columns, and the
  Zero tensor, when there is one, has the shape of Scale.  That number of rows is
  \<open>ceil(k / group_size)\<close> when the group size does not divide \<open>k\<close>, and one more than
  \<open>ceil(k / group_size)\<close> when it does.
\<close>

theorem scale_rows:
  assumes g: "0 < group_size p"
  shows "\<exists>ops. init_operands p d = Some ops \<and>
     shape (th_scale ops) = D2 (dim_k p div group_size p + 1) (dim_n p) \<and>
     shape (th_zero ops) = (if has_zero p then shape (th_scale ops) else D1 0) \<and>
     dim_k p div group_size p + 1 =
       nat \<lceil>real (dim_k p) / real (group_size p)\<rceil> + (if group_size p dvd dim_k p then 1 else 0)"
  using g by (simp add: init_operands_Some ceil_div_nat Tensor_def)

theorem scale_rows_witness:
  "0 < group_size test_hopper_fp16_int4_flexible_groups_2 \<and>
   (\<exists>ops. init_operands test_hopper_fp16_int4_flexible_groups_2 example_draws = Some ops \<and>
     shape (th_scale ops) = D2 2 1024 \<and>
     shape (th_zero ops) = D2 2 1024 \<and>
     (2::nat) = nat \<lceil>real 256 / real 192\<rceil> + 0)"
proof -
  have g: "0 < group_size test_hopper_fp16_int4_flexible_groups_2"
    by (simp add: test_hopper_fp16_int4_flexible_groups_2_def)
  have s: "dim_n test_hopper_fp16_int4_flexible_groups_2 = 1024"
    "dim_k test_hopper_fp16_int4_flexible_groups_2 = 256"
    "group_size test_hopper_fp16_int4_flexible_groups_2 = 192"
    "has_zero test_hopper_fp16_int4_flexible_groups_2 = True"
    by (simp_all add: test_hopper_fp16_int4_flexible_groups_2_def)
  show ?thesis
    using g scale_rows [OF g, of example_draws]
    unfolding s by auto
qed

text \<open>
  The claim as it was stated fails in the first case of \<open>test_matmul_int4_input\<close>: with
  \<open>k = 64\<close> and \<open>group_size = 64\<close> the Scale tensor has 2 rows, and \<open>ceil(64 / 64)\<close> is 1.
\<close>

theorem scale_rows_counterexample:
  "map_option (shape \<circ> th_scale) (init_operands (test_matmul_int4_input_0 False) example_draws)
   \<noteq> Some (D2 (nat \<lceil>real (dim_k (test_matmul_int4_input_0 False))
                     / real (group_size (test_matmul_int4_input_0 False))\<rceil>)
              (dim_n (test_matmul_int4_input_0 False)))"
  by (simp add: init_operands_Some test_matmul_int4_input_0_def)

text \<open>
  Claim C4, as amended.  In every run that reaches the reference, with \<open>n > 0\<close>, the flags
  BIAS, ZERO and W4A8_AWQ of \<open>quant_algo\<close> are set exactly when the bias, the zero and the
  alpha tensor given to the plugin are non-empty.  The flag PRE_QUANT_SCALE is set exactly
  when \<open>has_pre_quant\<close> holds, while the pre-quant scale tensor is generated with its \<open>k\<close>
  elements in every case.  The test makes no check of the flags against the tensors: the
  run completes for every combination of the four parameters.
\<close>

theorem flags_follow_parameters:
  assumes g: "0 < group_size p" and k: "8 dvd dim_k p" and n: "0 < dim_n p"
  shows "\<exists>run. woq_groupwise_matmul p d = Some run \<and>
     flag_set (quant_algo run) BIAS = (numel (th_bias (plugin_operands run)) \<noteq> 0) \<and>
     flag_set (quant_algo run) ZERO = (numel (th_zero (plugin_operands run)) \<noteq> 0) \<and>
     flag_set (quant_algo run) W4A8_AWQ = (numel (th_alpha (plugin_operands run)) \<noteq> 0) \<and>
     flag_set (quant_algo run) PRE_QUANT_SCALE = has_pre_quant p \<and>
     numel (th_pre_quant_scale (plugin_operands run)) = dim_k p"
proof -
  have d: "0 < (dim_k p + group_size p) div group_size p"
    using g by (simp add: div_greater_zero_iff)
  show ?thesis
    unfolding woq_groupwise_matmul_run [OF g k]
    using n d by (simp add: flag_set_quant_algo_of)
qed

theorem flags_follow_parameters_witness:
  "0 < group_size (test_matmul_int4_input_0 True) \<and> 8 dvd dim_k (test_matmul_int4_input_0 True) \<and>
   0 < dim_n (test_matmul_int4_input_0 True) \<and>
   (\<exists>run. woq_groupwise_matmul (test_matmul_int4_input_0 True) example_draws = Some run \<and>
     flag_set (quant_algo run) BIAS = (numel (th_bias (plugin_operands run)) \<noteq> 0) \<and>
     flag_set (quant_algo run) ZERO = (numel (th_zero (plugin_operands run)) \<noteq> 0) \<and>
     flag_set (quant_algo run) W4A8_AWQ = (numel (th_alpha (plugin_operands run)) \<noteq> 0) \<and>
     flag_set (quant_algo run) PRE_QUANT_SCALE = False \<and>
     numel (th_pre_quant_scale (plugin_operands run)) = 64)"
proof -
  have g: "0 < group_size (test_matmul_int4_input_0 True)"
    by (simp add: test_matmul_int4_input_0_def)
  have k: "8 dvd dim_k (test_matmul_int4_input_0 True)"
    by (simp add: test_matmul_int4_input_0_def)
  have n: "0 < dim_n (test_matmul_int4_input_0 True)"
    by (simp add: test_matmul_int4_input_0_def)
  have s: "has_pre_quant (test_matmul_int4_input_0 True) = False"
    "dim_k (test_matmul_int4_input_0 True) = 64"
    by (simp_all add: test_matmul_int4_input_0_def)
  show ?thesis
    using g k n flags_follow_parameters [OF g k n, of example_draws]
    unfolding s by simp
qed

text \<open>
  The claim as it was stated fails in the first case of \<open>test_matmul_int4_input\<close>: there
  \<open>quant_algo\<close> is 3, so PRE_QUANT_SCALE is not set, the pre-quant scale tensor has 64
  elements, and the run completes without an error.
\<close>

theorem flags_counterexample:
  "map_option quant_algo (woq_groupwise_matmul (test_matmul_int4_input_0 False) example_draws) = Some 3 \<and>
   \<not> flag_set 3 PRE_QUANT_SCALE \<and>
   map_option (numel \<circ> th_pre_quant_scale \<circ> plugin_operands)
     (woq_groupwise_matmul (test_matmul_int4_input_0 False) example_draws) = Some 64"
proof -
  have g: "0 < group_size (test_matmul_int4_input_0 False)"
    by (simp add: test_matmul_int4_input_0_def)
  have k: "8 dvd dim_k (test_matmul_int4_input_0 False)"
    by (simp add: test_matmul_int4_input_0_def)
  show ?thesis
    unfolding woq_groupwise_matmul_run [OF g k]
    by (simp add: test_matmul_int4_input_0_def quant_algo_of_def flag_set_def
        BIAS_def ZERO_def PRE_QUANT_SCALE_def W4A8_AWQ_def)
qed

section \<open>The reference computation\<close>

text \<open>
  Claim C1.  The claim gives the dequantized weight at row \<open>r\<close> the scale and the zero of the
  group \<open>r // group_size\<close>.  The test computes \<open>scale_ref\<close> and \<open>zero_ref\<close> as the single row
  \<open>input_rows\<close> of the repeated tensors, so every row of the weight gets the scale and the
  zero of the group \<open>k // group_size\<close>.  In the first case of \<open>test_matmul_int4_input\<close>, under
  the unsigned convention and in the run \<open>example_draws\<close>, the reference weight at row 0,
  column 0 is \<open>3 * 1/2 - 8 * 1/2 + 1/4 = -9/4\<close>, from the scale and zero of group 1, where the
  claim gives \<open>3 * 1 - 8 * 1 + 1/2 = -9/2\<close>, from group 0.
\<close>

theorem dequantize_first_case:
  "Option.bind (woq_groupwise_matmul (test_matmul_int4_input_0 True) example_draws)
     (\<lambda>run. at2 (ref_th_weight run) 0 0) = Some (- 9 / 4) \<and>
   Option.bind (init_operands (test_matmul_int4_input_0 True) example_draws)
     (\<lambda>ops. Some (spec_dequantized (test_matmul_int4_input_0 True)
        (\<lambda>r c. real_of_int (int4_vals example_draws r c)) (th_scale ops) (th_zero ops) 0 0))
     = Some (- 9 / 2)"
proof -
  have g: "0 < group_size (test_matmul_int4_input_0 True)"
    by (simp add: test_matmul_int4_input_0_def)
  have k: "8 dvd dim_k (test_matmul_int4_input_0 True)"
    by (simp add: test_matmul_int4_input_0_def)
  show ?thesis
    unfolding woq_groupwise_matmul_run [OF g k] init_operands_Some [OF g]
    by (simp add: test_matmul_int4_input_0_def example_draws_def spec_dequantized_def)
qed

text \<open>
  Claim C8.  Row 63, the last row of the weight in the first case of
  \<open>test_matmul_int4_input\<close>, belongs to group 0, and the two runs \<open>example_draws\<close> and
  \<open>example_draws_other_scale\<close> have the same scales in group 0; they differ in group 1, whose
  rows 64 to 127 lie beyond the \<open>k = 64\<close> rows of the weight.  The reference weight of the
  two runs differs all the same: the group row beyond \<open>k\<close> is the one the test reads.
\<close>

theorem excess_group_row_first_case:
  "Option.bind (init_operands (test_matmul_int4_input_0 True) example_draws)
     (\<lambda>ops. row (th_scale ops) ((64 - 1) div 64))
   = Option.bind (init_operands (test_matmul_int4_input_0 True) example_draws_other_scale)
     (\<lambda>ops. row (th_scale ops) ((64 - 1) div 64)) \<and>
   Option.bind (woq_groupwise_matmul (test_matmul_int4_input_0 True) example_draws)
     (\<lambda>run. at2 (ref_th_weight run) 63 0) = Some (- 9 / 4) \<and>
   Option.bind (woq_groupwise_matmul (test_matmul_int4_input_0 True) example_draws_other_scale)
     (\<lambda>run. at2 (ref_th_weight run) 63 0) = Some (- 19 / 4)"
proof -
  have g: "0 < group_size (test_matmul_int4_input_0 True)"
    by (simp add: test_matmul_int4_input_0_def)
  have k: "8 dvd dim_k (test_matmul_int4_input_0 True)"
    by (simp add: test_matmul_int4_input_0_def)
  show ?thesis
    unfolding woq_groupwise_matmul_run [OF g k] init_operands_Some [OF g]
    by (simp add: test_matmul_int4_input_0_def example_draws_def example_draws_other_scale_def
        row_mk2)
qed



text \<open>
  Claim C6.  For an activation of shape \<open>m \<times> k\<close>, a weight of shape \<open>k \<times> n\<close> and a bias
  that is absent or of shape \<open>1 \<times> n\<close>, the reference output at \<open>(i, j)\<close> is the sum over
  \<open>r\<close> of \<open>Activation[i, r] * Weight[r, j]\<close> plus \<open>Bias[j]\<close>, where an absent bias counts as
  0; and for every bias of shape \<open>1 \<times> n\<close> the output with the bias is the output without
  it plus the bias broadcast over the rows.
\<close>

theorem gt_matmul_value:
  assumes a: "shape a = D2 m k" "well_formed a"
    and w: "shape w = D2 k n" "well_formed w"
    and b: "b = Tensor \<or> shape b = D2 1 n \<and> well_formed b"
  shows "\<exists>out. woq_groupwise_gt_matmul a w b = Some out \<and> shape out = D2 m n \<and>
      (\<forall>i<m. \<forall>j<n. at2 out i j =
          Some (sum_list (map (\<lambda>r. elt a i r * elt w r j) [0..<k])
                + (if numel b = 0 then 0 else elt b 0 j))) \<and>
      (shape b = D2 1 n \<longrightarrow>
         woq_groupwise_gt_matmul a w b =
           Option.bind (woq_groupwise_gt_matmul a w Tensor) (\<lambda>without. bcast (+) without b))"
proof -
  let ?dot = "\<lambda>i j. sum_list (map (\<lambda>r. elt a i r * elt w r j) [0..<k])"
  have mm: "matmul a w = Some (mk (D2 m n) ?dot)"
    using a w by (simp add: matmul_D2)
  from b show ?thesis
  proof
    assume "b = Tensor"
    then show ?thesis
      by (simp add: woq_groupwise_gt_matmul_def mm Tensor_def numel_def)
  next
    assume "shape b = D2 1 n \<and> well_formed b"
    then have bb: "shape b = D2 1 n" by simp
    have nb: "numel b = n" using bb by (simp add: numel_def)
    have sum: "mk (D2 m n) (\<lambda>i j. elt (mk (D2 m n) ?dot) i j + elt b 0 j)
        = mk (D2 m n) (\<lambda>i j. ?dot i j + elt b 0 j)"
      by (rule mk2_cong) simp
    have ib: "ibcast (+) (mk (D2 m n) ?dot) b = Some (mk (D2 m n) (\<lambda>i j. ?dot i j + elt b 0 j))"
      using ibcast_row [of "mk (D2 m n) ?dot" m n b "(+)"] bb sum by simp
    have bc: "bcast (+) (mk (D2 m n) ?dot) b = Some (mk (D2 m n) (\<lambda>i j. ?dot i j + elt b 0 j))"
      using bcast_row [of "mk (D2 m n) ?dot" m n b "(+)"] bb sum by simp
    have same: "woq_groupwise_gt_matmul a w b = Some (mk (D2 m n) (\<lambda>i j. ?dot i j + elt b 0 j))"
    proof (cases "n = 0")
      case True
      have "mk (D2 m n) ?dot = mk (D2 m n) (\<lambda>i j. ?dot i j + elt b 0 j)"
        using True by (intro mk2_cong) simp
      then show ?thesis
        using True nb by (simp add: woq_groupwise_gt_matmul_def mm)
    next
      case False
      then show ?thesis
        using nb by (simp add: woq_groupwise_gt_matmul_def mm ib)
    qed
    have without: "woq_groupwise_gt_matmul a w Tensor = Some (mk (D2 m n) ?dot)"
      by (simp add: woq_groupwise_gt_matmul_def mm)
    have "\<forall>i<m. \<forall>j<n. at2 (mk (D2 m n) (\<lambda>i j. ?dot i j + elt b 0 j)) i j =
          Some (?dot i j + (if numel b = 0 then 0 else elt b 0 j))"
      using nb by simp
    then show ?thesis
      unfolding same without using bc by simp
  qed
qed

theorem gt_matmul_value_witness:
  "shape small_activation = D2 1 2 \<and> well_formed small_activation \<and>
   shape small_weight = D2 2 2 \<and> well_formed small_weight \<and>
   shape small_bias = D2 1 2 \<and> well_formed small_bias \<and>
   woq_groupwise_gt_matmul small_activation small_weight small_bias =
     Option.bind (woq_groupwise_gt_matmul small_activation small_weight Tensor)
       (\<lambda>without. bcast (+) without small_bias) \<and>
   woq_groupwise_gt_matmul small_activation small_weight small_bias =
     Some \<lparr>shape = D2 1 2, data = [2, 2]\<rparr>"
proof -
  have a: "shape small_activation = D2 1 2" "well_formed small_activation"
    by (simp_all add: small_activation_def well_formed_def numel_def)
  have w: "shape small_weight = D2 2 2" "well_formed small_weight"
    by (simp_all add: small_weight_def well_formed_def numel_def)
  have b': "shape small_bias = D2 1 2" "well_formed small_bias"
    by (simp_all add: small_bias_def well_formed_def numel_def)
  have b: "small_bias = Tensor \<or> shape small_bias = D2 1 2 \<and> well_formed small_bias"
    using b' by simp
  have v: "woq_groupwise_gt_matmul small_activation small_weight small_bias =
      Some \<lparr>shape = D2 1 2, data = [2, 2]\<rparr>"
    by (simp add: woq_groupwise_gt_matmul_def small_activation_def small_bias_def
        small_weight_def ibcast_def bcast_def matmul_def mk.simps elt_def bdim_def numel_def upt_rec)
  show ?thesis
    using a w b' v gt_matmul_value [OF a w b] by blast
qed

text \<open>
  Claim C9, as amended.  For an activation \<open>A\<close> of shape \<open>m \<times> k\<close>, a per-channel scale
  \<open>s\<close> of shape \<open>1 \<times> k\<close> and a weight \<open>W\<close> of shape \<open>k \<times> n\<close>, in exact arithmetic,
  \<open>matmul(A * s, W)\<close> is the product of \<open>A\<close> with the weight whose row \<open>r\<close> is scaled by
  \<open>s[r]\<close>; it is \<open>matmul(A, W)\<close> times \<open>t\<close> when every channel of \<open>s\<close> has the same
  value \<open>t\<close>.
\<close>

theorem pre_scale_moves_to_weight:
  assumes a: "shape a = D2 m k" "well_formed a"
    and s: "shape s = D2 1 k" "well_formed s"
    and w: "shape w = D2 k n" "well_formed w"
  shows "prescaled_matmul a s w = matmul a (mk (D2 k n) (\<lambda>r j. elt s 0 r * elt w r j)) \<and>
     ((\<forall>r<k. elt s 0 r = t) \<longrightarrow> prescaled_matmul a s w = map_option (smul t) (matmul a w))"
proof -
  have bc: "bcast (*) a s = Some (mk (D2 m k) (\<lambda>i r. elt a i r * elt s 0 r))"
    using a(1) s(1) by (rule bcast_row)
  have lhs: "prescaled_matmul a s w =
      Some (mk (D2 m n) (\<lambda>i j. sum_list (map (\<lambda>r. (elt a i r * elt s 0 r) * elt w r j) [0..<k])))"
  proof -
    have "mk (D2 m n) (\<lambda>i j. sum_list (map (\<lambda>r. elt (mk (D2 m k) (\<lambda>i r. elt a i r * elt s 0 r)) i r
              * elt w r j) [0..<k]))
        = mk (D2 m n) (\<lambda>i j. sum_list (map (\<lambda>r. (elt a i r * elt s 0 r) * elt w r j) [0..<k]))"
      by (rule mk2_cong) (auto intro!: arg_cong [where f = sum_list])
    then show ?thesis
      unfolding prescaled_matmul_def bc using w by (simp add: matmul_D2)
  qed
  have rhs: "matmul a (mk (D2 k n) (\<lambda>r j. elt s 0 r * elt w r j)) =
      Some (mk (D2 m n) (\<lambda>i j. sum_list (map (\<lambda>r. elt a i r * (elt s 0 r * elt w r j)) [0..<k])))"
  proof -
    have "mk (D2 m n) (\<lambda>i j. sum_list (map (\<lambda>r. elt a i r
              * elt (mk (D2 k n) (\<lambda>r j. elt s 0 r * elt w r j)) r j) [0..<k]))
        = mk (D2 m n) (\<lambda>i j. sum_list (map (\<lambda>r. elt a i r * (elt s 0 r * elt w r j)) [0..<k]))"
      by (rule mk2_cong) (auto intro!: arg_cong [where f = sum_list])
    then show ?thesis
      using a by (simp add: matmul_D2)
  qed
  have one: "prescaled_matmul a s w = matmul a (mk (D2 k n) (\<lambda>r j. elt s 0 r * elt w r j))"
    unfolding lhs rhs by (simp add: mult.assoc)
  have two: "prescaled_matmul a s w = map_option (smul t) (matmul a w)" if u: "\<forall>r<k. elt s 0 r = t"
  proof -
    have "sum_list (map (\<lambda>r. (elt a i r * elt s 0 r) * elt w r j) [0..<k])
        = t * sum_list (map (\<lambda>r. elt a i r * elt w r j) [0..<k])" for i j
    proof -
      have "map (\<lambda>r. (elt a i r * elt s 0 r) * elt w r j) [0..<k]
          = map (\<lambda>r. (elt a i r * elt w r j) * t) [0..<k]"
        using u by (simp add: mult_ac)
      then have "sum_list (map (\<lambda>r. (elt a i r * elt s 0 r) * elt w r j) [0..<k])
          = sum_list (map (\<lambda>r. (elt a i r * elt w r j) * t) [0..<k])"
        by (rule arg_cong)
      also have "\<dots> = sum_list (map (\<lambda>r. elt a i r * elt w r j) [0..<k]) * t"
        by (rule sum_list_mult_right)
      finally show ?thesis by (simp only: mult.commute)
    qed
    then show ?thesis
      unfolding lhs using a w by (simp add: matmul_D2 smul_mk)
  qed
  show ?thesis using one two by blast
qed

theorem pre_scale_moves_to_weight_witness:
  "shape small_activation = D2 1 2 \<and> well_formed small_activation \<and>
   shape small_uniform_scale = D2 1 2 \<and> well_formed small_uniform_scale \<and>
   shape small_weight = D2 2 2 \<and> well_formed small_weight \<and>
   elt small_uniform_scale 0 0 = 2 \<and> elt small_uniform_scale 0 1 = 2 \<and>
   prescaled_matmul small_activation small_uniform_scale small_weight =
     matmul small_activation
       (mk (D2 2 2) (\<lambda>r j. elt small_uniform_scale 0 r * elt small_weight r j)) \<and>
   prescaled_matmul small_activation small_uniform_scale small_weight =
     map_option (smul 2) (matmul small_activation small_weight) \<and>
   prescaled_matmul small_activation small_uniform_scale small_weight =
     Some \<lparr>shape = D2 1 2, data = [2, 2]\<rparr>"
proof -
  have a: "shape small_activation = D2 1 2" "well_formed small_activation"
    by (simp_all add: small_activation_def well_formed_def numel_def)
  have s: "shape small_uniform_scale = D2 1 2" "well_formed small_uniform_scale"
    by (simp_all add: small_uniform_scale_def well_formed_def numel_def)
  have w: "shape small_weight = D2 2 2" "well_formed small_weight"
    by (simp_all add: small_weight_def well_formed_def numel_def)
  have e: "elt small_uniform_scale 0 0 = 2" "elt small_uniform_scale 0 1 = 2"
    by (simp_all add: small_uniform_scale_def elt_def)
  have u: "\<forall>r<2. elt small_uniform_scale 0 r = 2"
    using e by (auto simp: less_Suc_eq numeral_2_eq_2)
  have v: "prescaled_matmul small_activation small_uniform_scale small_weight =
      Some \<lparr>shape = D2 1 2, data = [2, 2]\<rparr>"
    by (simp add: prescaled_matmul_def small_activation_def small_uniform_scale_def
        small_weight_def bcast_def matmul_def mk.simps elt_def bdim_def upt_rec)
  show ?thesis
    using a s w e u v pre_scale_moves_to_weight [OF a s w, of 2] by blast
qed

text \<open>
  The claim as it was stated fails for the activation \<open>[[1, 0]]\<close>, the scale \<open>[[2, 3]]\<close> and
  the weight \<open>[[1, 1], [0, 0]]\<close>: \<open>matmul(A * s, W)\<close> is \<open>[[2, 2]]\<close> and
  \<open>matmul(A, W) * s\<close> is \<open>[[2, 3]]\<close>.
\<close>

theorem pre_scale_linearity_counterexample:
  "prescaled_matmul small_activation small_scale small_weight = Some \<lparr>shape = D2 1 2, data = [2, 2]\<rparr> \<and>
   spec_scaled_matmul small_activation small_scale small_weight = Some \<lparr>shape = D2 1 2, data = [2, 3]\<rparr>"
  by (simp add: prescaled_matmul_def spec_scaled_matmul_def small_activation_def small_scale_def
      small_weight_def bcast_def matmul_def mk.simps elt_def bdim_def upt_rec)

end
